theory Spec2Isabelle
  imports Main "HOL-Library.Word"
begin

section \<open>The Windows Hypervisor Platform adapter: data model\<close>

text \<open>
  The development embeds \<^verbatim>\<open>src/modules/whpx/src/whpx_platform.cpp\<close>: the constructor
  and the destructor of \<^verbatim>\<open>WhpxPlatform\<close> and \<^verbatim>\<open>CreateVMImpl\<close>. The headers the
  file includes are not part of the sources at hand; what the code uses of them is either
  a parameter of the model or introduced below with a remark.
\<close>

subsection \<open>Enumerations\<close>

text \<open>
  Modelled from the spec: the enumeration \<^verbatim>\<open>PlatformInitStatus\<close> of
  \<^verbatim>\<open>virt86/platform/platform.hpp\<close>, with the four states of the specification's
  state machine.
\<close>

datatype PlatformInitStatus = Uninitialized | OK | Unavailable | Failed

text \<open>
  Modelled from the spec: the bit-mask enumerations \<^verbatim>\<open>ExtendedControlRegister\<close> and
  \<^verbatim>\<open>ExtendedVMExit\<close> of \<^verbatim>\<open>virt86/platform/features.hpp\<close>. A value of such an
  enumeration is a set of members; \<^verbatim>\<open>a | b\<close> is the union and \<^verbatim>\<open>x |= a\<close> adds
  the member \<^verbatim>\<open>a\<close> to \<^verbatim>\<open>x\<close>.
\<close>

datatype ExtendedControlRegister = XCR0 | CR8 | MXCSRMask

datatype ExtendedVMExit = CPUID | MSRAccess | Exception | TSCAccess | APICSMI | Hypercall

text \<open>The capability codes the constructor passes to \<^verbatim>\<open>WHvGetCapability\<close>.\<close>

datatype WHV_CAPABILITY_CODE =
    WHvCapabilityCodeHypervisorPresent
  | WHvCapabilityCodeFeatures
  | WHvCapabilityCodeExtendedVmExits
  | WHvCapabilityCodeExceptionExitBitmap

subsection \<open>Native results and the capability buffer\<close>

type_synonym HRESULT = "32 word"

definition S_OK :: HRESULT where
  "S_OK = 0"

definition E_FAIL :: HRESULT where
  "E_FAIL = 0x80004005"

text \<open>
  \<^verbatim>\<open>WHV_CAPABILITY\<close> is a union of the Windows SDK: all its members start at offset 0
  and share the same eight bytes. The local variable \<^verbatim>\<open>cap\<close> of the constructor is
  therefore one 64-bit cell that every call of \<^verbatim>\<open>WHvGetCapability\<close> writes, and each
  member access reads bits of that cell: \<^verbatim>\<open>HypervisorPresent\<close> is a 32-bit
  \<^verbatim>\<open>BOOL\<close>, \<^verbatim>\<open>Features\<close> and \<^verbatim>\<open>ExtendedVmExits\<close> are bit-fields whose flags are
  allocated from bit 0 upwards in declaration order, and \<^verbatim>\<open>ExceptionExitBitmap\<close> is
  the whole \<^verbatim>\<open>UINT64\<close>.
\<close>

type_synonym WHV_CAPABILITY = "64 word"

definition HypervisorPresent :: "WHV_CAPABILITY \<Rightarrow> bool" where
  "HypervisorPresent cap = (take_bit 32 cap \<noteq> 0)"

definition Features :: "WHV_CAPABILITY \<Rightarrow> 64 word" where
  "Features cap = cap"

definition PartialUnmap :: "64 word \<Rightarrow> bool" where
  "PartialUnmap features = bit features 0"

definition DirtyPageTracking :: "64 word \<Rightarrow> bool" where
  "DirtyPageTracking features = bit features 3"

definition X64CpuidExit :: "WHV_CAPABILITY \<Rightarrow> bool" where
  "X64CpuidExit cap = bit cap 0"

definition X64MsrExit :: "WHV_CAPABILITY \<Rightarrow> bool" where
  "X64MsrExit cap = bit cap 1"

definition ExceptionExit :: "WHV_CAPABILITY \<Rightarrow> bool" where
  "ExceptionExit cap = bit cap 2"

definition X64RdtscExit :: "WHV_CAPABILITY \<Rightarrow> bool" where
  "X64RdtscExit cap = bit cap 3"

definition X64ApicSmiExit :: "WHV_CAPABILITY \<Rightarrow> bool" where
  "X64ApicSmiExit cap = bit cap 4"

definition HypercallExit :: "WHV_CAPABILITY \<Rightarrow> bool" where
  "HypercallExit cap = bit cap 5"

definition ExceptionExitBitmap :: "WHV_CAPABILITY \<Rightarrow> 64 word" where
  "ExceptionExitBitmap cap = cap"

subsection \<open>Version and host information\<close>

datatype VersionInfo =
  VersionInfo (major: nat) (minor: nat) (build: nat) (revision: nat)

text \<open>
  Modelled from the spec: \<^verbatim>\<open>operator>=\<close> of \<^verbatim>\<open>VersionInfo\<close>
  (\<^verbatim>\<open>virt86/util/version_info.hpp\<close>), which compares a version against a threshold:
  the lexicographic order on major, minor, build and revision.
\<close>

definition VersionInfo_ge :: "VersionInfo \<Rightarrow> VersionInfo \<Rightarrow> bool" where
  "VersionInfo_ge a b =
     (major b < major a \<or> (major a = major b \<and>
       (minor b < minor a \<or> (minor a = minor b \<and>
         (build b < build a \<or> (build a = build b \<and> revision b \<le> revision a))))))"

text \<open>Decimal output of an unsigned number, as \<^verbatim>\<open>operator<<\<close> of a stream prints it.\<close>

fun dec :: "nat \<Rightarrow> string" where
  "dec n = (if n < 10 then [char_of (48 + n)] else dec (n div 10) @ [char_of (48 + n mod 10)])"

declare dec.simps [simp del]

record GuestPhysicalAddress =
  maxBits :: nat
  maxAddress :: "64 word"
  mask :: "64 word"

text \<open>
  The global \<^verbatim>\<open>HostInfo\<close> of \<^verbatim>\<open>virt86/util/host_info.hpp\<close>, as far as the
  constructor reads it. The floating point extension set is copied as it is and stands
  here as the number that encodes it.
\<close>

record HostInfo =
  hi_floatingPointExtensions :: nat
  gpa :: GuestPhysicalAddress

subsection \<open>Features and the platform object\<close>

text \<open>
  The type \<^verbatim>\<open>ExceptionCode\<close> of the field \<^verbatim>\<open>exceptionExits\<close> is declared outside
  the sources at hand; the records are polymorphic in it and the
  \<^verbatim>\<open>static_cast<ExceptionCode>\<close> of the constructor is a parameter.
\<close>

record 'e PlatformFeatures =
  floatingPointExtensions :: nat
  extendedControlRegisters :: "ExtendedControlRegister set"
  maxProcessorsPerVM :: nat
  maxProcessorsGlobal :: nat
  guestPhysicalAddress :: GuestPhysicalAddress
  unrestrictedGuest :: bool
  extendedPageTables :: bool
  largeMemoryAllocation :: bool
  customCPUIDs :: bool
  dirtyPageTracking :: bool
  partialDirtyBitmap :: bool
  partialUnmapping :: bool
  memoryAliasing :: bool
  memoryUnmapping :: bool
  extendedVMExits :: "ExtendedVMExit set"
  exceptionExits :: 'e

record 'e Platform =
  m_name :: string
  m_initStatus :: PlatformInitStatus
  m_version :: string
  m_features :: "'e PlatformFeatures"

subsection \<open>The dispatch table and the environment\<close>

text \<open>
  \<^verbatim>\<open>WhpxDispatch\<close> is an external collaborator. \<^verbatim>\<open>Load\<close> is the result of its
  \<^verbatim>\<open>Load()\<close>; \<^verbatim>\<open>WHvGetCapability\<close> takes the capability code and the content of the
  buffer before the call, and returns the \<^verbatim>\<open>HRESULT\<close> with the content of the buffer
  after the call (so a failing call may leave the buffer as it was, or not).
  \<^verbatim>\<open>s_dispatch\<close> is \<^verbatim>\<open>None\<close> when \<^verbatim>\<open>new(std::nothrow)\<close> returned a null pointer.
\<close>

record WhpxDispatch =
  Load :: bool
  WHvGetCapability :: "WHV_CAPABILITY_CODE \<Rightarrow> WHV_CAPABILITY \<Rightarrow> HRESULT \<times> WHV_CAPABILITY"

record env =
  s_dispatch :: "WhpxDispatch option"
  g_whpxVersion :: VersionInfo
  HostInfo :: HostInfo

subsection \<open>Observable actions\<close>

text \<open>
  The calls that leave the platform object and the writes of \<^verbatim>\<open>m_initStatus\<close>, in the
  order in which a run performs them.
\<close>

datatype event =
    Call_Load
  | Call_WHvGetCapability WHV_CAPABILITY_CODE
  | Write_initStatus PlatformInitStatus
  | Call_DestroyVMs
  | Delete_s_dispatch

fun status_writes :: "event list \<Rightarrow> PlatformInitStatus list" where
  "status_writes [] = []"
| "status_writes (Write_initStatus s # es) = s # status_writes es"
| "status_writes (e # es) = status_writes es"

fun capability_queries :: "event list \<Rightarrow> WHV_CAPABILITY_CODE list" where
  "capability_queries [] = []"
| "capability_queries (Call_WHvGetCapability c # es) = c # capability_queries es"
| "capability_queries (e # es) = capability_queries es"

section \<open>The constructor\<close>

text \<open>
  The frame of a constructor run: the object under construction, the local
  \<^verbatim>\<open>cap\<close>, and the actions performed so far.
\<close>

record 'e frame =
  this :: "'e Platform"
  cap :: WHV_CAPABILITY
  trace :: "event list"

definition set_initStatus :: "PlatformInitStatus \<Rightarrow> 'e frame \<Rightarrow> 'e frame" where
  "set_initStatus s fr =
     fr\<lparr>this := (this fr)\<lparr>m_initStatus := s\<rparr>, trace := trace fr @ [Write_initStatus s]\<rparr>"

definition call_Load :: "WhpxDispatch \<Rightarrow> 'e frame \<Rightarrow> bool \<times> 'e frame" where
  "call_Load d fr = (Load d, fr\<lparr>trace := trace fr @ [Call_Load]\<rparr>)"

definition call_WHvGetCapability ::
  "WhpxDispatch \<Rightarrow> WHV_CAPABILITY_CODE \<Rightarrow> 'e frame \<Rightarrow> HRESULT \<times> 'e frame" where
  "call_WHvGetCapability d code fr =
     (let (hr, cap') = WHvGetCapability d code (cap fr)
      in (hr, fr\<lparr>cap := cap', trace := trace fr @ [Call_WHvGetCapability code]\<rparr>))"

definition update_features ::
  "('e PlatformFeatures \<Rightarrow> 'e PlatformFeatures) \<Rightarrow> 'e frame \<Rightarrow> 'e frame" where
  "update_features g fr = fr\<lparr>this := (this fr)\<lparr>m_features := g (m_features (this fr))\<rparr>\<rparr>"

definition add_extendedVMExit :: "ExtendedVMExit \<Rightarrow> 'e frame \<Rightarrow> 'e frame" where
  "add_extendedVMExit x =
     update_features (\<lambda>f. f\<lparr>extendedVMExits := extendedVMExits f \<union> {x}\<rparr>)"

text \<open>Lines 59 to 62: the version string.\<close>

definition build_version :: "VersionInfo \<Rightarrow> string" where
  "build_version v =
     dec (major v) @ ''.'' @ dec (minor v) @ ''.'' @ dec (build v) @ ''.'' @ dec (revision v)"

text \<open>
  Lines 83 to 102: the feature set, from the copy \<^verbatim>\<open>features\<close> of
  \<^verbatim>\<open>cap.Features\<close>, the version and the host information.
\<close>

definition populate_features ::
  "env \<Rightarrow> 64 word \<Rightarrow> 'e PlatformFeatures \<Rightarrow> 'e PlatformFeatures" where
  "populate_features e features f0 =
     (let f = f0\<lparr>floatingPointExtensions := hi_floatingPointExtensions (HostInfo e)\<rparr>;
          f = f\<lparr>extendedControlRegisters := {CR8} \<union> {MXCSRMask}\<rparr>;
          f = (if VersionInfo_ge (g_whpxVersion e) (VersionInfo 10 0 17763 0)
               then f\<lparr>extendedControlRegisters := extendedControlRegisters f \<union> {XCR0}\<rparr>
               else f);
          f = f\<lparr>maxProcessorsPerVM := 64\<rparr>;
          f = f\<lparr>maxProcessorsGlobal := 128\<rparr>;
          f = f\<lparr>guestPhysicalAddress :=
                 (guestPhysicalAddress f)\<lparr>maxBits := maxBits (gpa (HostInfo e))\<rparr>\<rparr>;
          f = f\<lparr>guestPhysicalAddress :=
                 (guestPhysicalAddress f)\<lparr>maxAddress := maxAddress (gpa (HostInfo e))\<rparr>\<rparr>;
          f = f\<lparr>guestPhysicalAddress :=
                 (guestPhysicalAddress f)\<lparr>mask := mask (gpa (HostInfo e))\<rparr>\<rparr>;
          f = f\<lparr>unrestrictedGuest := True\<rparr>;
          f = f\<lparr>extendedPageTables := True\<rparr>;
          f = f\<lparr>largeMemoryAllocation := True\<rparr>;
          f = f\<lparr>customCPUIDs := True\<rparr>;
          f = f\<lparr>dirtyPageTracking := DirtyPageTracking features\<rparr>;
          f = f\<lparr>partialDirtyBitmap := True\<rparr>;
          f = f\<lparr>partialUnmapping := PartialUnmap features\<rparr>;
          f = f\<lparr>memoryAliasing := True\<rparr>;
          f = f\<lparr>memoryUnmapping := True\<rparr>
      in f)"

text \<open>Lines 105 to 133: the extended VM exits and the exception bitmap.\<close>

definition probe_extended_exits ::
  "WhpxDispatch \<Rightarrow> (64 word \<Rightarrow> 'e) \<Rightarrow> 'e frame \<Rightarrow> 'e frame" where
  "probe_extended_exits d static_cast fr0 =
     (let (hr, fr) = call_WHvGetCapability d WHvCapabilityCodeExtendedVmExits fr0;
          fr = (if S_OK \<noteq> hr then set_initStatus Failed fr else fr);
          fr = (if X64CpuidExit (cap fr) then add_extendedVMExit CPUID fr else fr);
          fr = (if X64MsrExit (cap fr) then add_extendedVMExit MSRAccess fr else fr);
          fr = (if ExceptionExit (cap fr)
                then (let fr = add_extendedVMExit Exception fr;
                          (hr, fr) =
                            call_WHvGetCapability d WHvCapabilityCodeExceptionExitBitmap fr;
                          fr = (if S_OK \<noteq> hr then set_initStatus Failed fr else fr)
                      in update_features
                           (\<lambda>f. f\<lparr>exceptionExits := static_cast (ExceptionExitBitmap (cap fr))\<rparr>)
                           fr)
                else fr);
          fr = (if X64RdtscExit (cap fr) then add_extendedVMExit TSCAccess fr else fr);
          fr = (if X64ApicSmiExit (cap fr) then add_extendedVMExit APICSMI fr else fr);
          fr = (if HypercallExit (cap fr) then add_extendedVMExit Hypercall fr else fr)
      in fr)"

text \<open>Lines 77 to 103, followed by the extended exits.\<close>

definition probe_features ::
  "env \<Rightarrow> WhpxDispatch \<Rightarrow> (64 word \<Rightarrow> 'e) \<Rightarrow> 'e frame \<Rightarrow> 'e frame" where
  "probe_features e d static_cast fr0 =
     (let (hr, fr) = call_WHvGetCapability d WHvCapabilityCodeFeatures fr0;
          fr = (if S_OK \<noteq> hr then set_initStatus Failed fr else fr);
          features = Features (cap fr);
          fr = update_features (populate_features e features) fr;
          fr = set_initStatus OK fr
      in probe_extended_exits d static_cast fr)"

text \<open>
  The constructor body, lines 46 to 134. \<^verbatim>\<open>p0\<close> is the object as the constructor of
  the base class \<^verbatim>\<open>Platform\<close> (outside the sources at hand) leaves it, \<^verbatim>\<open>cap0\<close> the
  content of the uninitialised local \<^verbatim>\<open>cap\<close>. A \<^verbatim>\<open>return\<close> ends the \<^verbatim>\<open>if\<close> chain.
\<close>

definition WhpxPlatform_ctor ::
  "env \<Rightarrow> (64 word \<Rightarrow> 'e) \<Rightarrow> WHV_CAPABILITY \<Rightarrow> 'e Platform \<Rightarrow> 'e frame" where
  "WhpxPlatform_ctor e static_cast cap0 p0 =
     (let fr0 = \<lparr>this = p0, cap = cap0, trace = []\<rparr>
      in case s_dispatch e of
           None \<Rightarrow> set_initStatus Failed fr0
         | Some d \<Rightarrow>
            (let (loaded, fr) = call_Load d fr0
             in if \<not> loaded then set_initStatus Unavailable fr
                else
                  (let fr = fr\<lparr>this := (this fr)\<lparr>m_version := build_version (g_whpxVersion e)\<rparr>\<rparr>;
                       (hr, fr) = call_WHvGetCapability d WHvCapabilityCodeHypervisorPresent fr;
                       fr = (if S_OK \<noteq> hr then set_initStatus Failed fr else fr)
                   in if \<not> HypervisorPresent (cap fr) then set_initStatus Unavailable fr
                      else probe_features e d static_cast fr)))"

section \<open>The destructor and the VM factory\<close>

text \<open>
  Lines 136 to 141. \<^verbatim>\<open>DestroyVMs\<close> belongs to the base class; the destructor is
  observed through the actions it performs, in order. \<^verbatim>\<open>delete s_dispatch\<close> releases
  the dispatch table when the pointer is not null; on a null pointer (the run that ended
  on line 51) it has no effect and is no action.
\<close>

definition WhpxPlatform_dtor :: "env \<Rightarrow> 'e Platform \<Rightarrow> event list" where
  "WhpxPlatform_dtor e p =
     (let t = [];
          t = (if m_initStatus p = OK then t @ [Call_DestroyVMs] else t)
      in case s_dispatch e of
           None \<Rightarrow> t
         | Some d \<Rightarrow> t @ [Delete_s_dispatch])"

text \<open>
  Lines 143 to 149. The constructor of \<^verbatim>\<open>WhpxVirtualMachine\<close> and its
  \<^verbatim>\<open>Initialize\<close> live in another file and are parameters: \<^verbatim>\<open>make_vm\<close> builds the
  object from the platform, the dispatch table and the specifications,
  \<^verbatim>\<open>Initialize\<close> returns its result with the object as it leaves it. The result is
  \<^verbatim>\<open>None\<close> for \<^verbatim>\<open>nullptr\<close>.
\<close>

definition CreateVMImpl ::
  "('e Platform \<Rightarrow> WhpxDispatch \<Rightarrow> 's \<Rightarrow> 'vm) \<Rightarrow> ('vm \<Rightarrow> bool \<times> 'vm) \<Rightarrow>
   'e Platform \<Rightarrow> WhpxDispatch \<Rightarrow> 's \<Rightarrow> 'vm option" where
  "CreateVMImpl make_vm Initialize p d specifications =
     (let vm = make_vm p d specifications;
          (ok, vm) = Initialize vm
      in if \<not> ok then None else Some vm)"

section \<open>Concrete environments\<close>

text \<open>
  A platform object as a base-class constructor would leave it, with the status
  \<^verbatim>\<open>Uninitialized\<close> and an empty feature set, for an exception code type of 64 bits.
\<close>

definition p_init :: "(64 word) Platform" where
  "p_init =
     \<lparr>m_name = ''Microsoft Windows Hypervisor Platform'',
      m_initStatus = Uninitialized,
      m_version = [],
      m_features =
        \<lparr>floatingPointExtensions = 0,
         extendedControlRegisters = {},
         maxProcessorsPerVM = 0,
         maxProcessorsGlobal = 0,
         guestPhysicalAddress = \<lparr>maxBits = 0, maxAddress = 0, mask = 0\<rparr>,
         unrestrictedGuest = False,
         extendedPageTables = False,
         largeMemoryAllocation = False,
         customCPUIDs = False,
         dirtyPageTracking = False,
         partialDirtyBitmap = False,
         partialUnmapping = False,
         memoryAliasing = False,
         memoryUnmapping = False,
         extendedVMExits = {},
         exceptionExits = 0\<rparr>\<rparr>"

definition host :: HostInfo where
  "host = \<lparr>hi_floatingPointExtensions = 7,
           gpa = \<lparr>maxBits = 39, maxAddress = 0x7FFFFFFFFF, mask = 0x7FFFFFF000\<rparr>\<rparr>"

text \<open>
  A host on which every query succeeds: the hypervisor is present, the features are
  \<^verbatim>\<open>PartialUnmap\<close> and \<^verbatim>\<open>DirtyPageTracking\<close>, the extended exits are CPUID, MSR and
  exception, and the exception bitmap has bit 14 (page fault).
\<close>

fun caps_healthy :: "WHV_CAPABILITY_CODE \<Rightarrow> WHV_CAPABILITY \<Rightarrow> HRESULT \<times> WHV_CAPABILITY" where
  "caps_healthy WHvCapabilityCodeHypervisorPresent c = (S_OK, 1)"
| "caps_healthy WHvCapabilityCodeFeatures c = (S_OK, 0x9)"
| "caps_healthy WHvCapabilityCodeExtendedVmExits c = (S_OK, 0x7)"
| "caps_healthy WHvCapabilityCodeExceptionExitBitmap c = (S_OK, 0x4000)"

definition env_healthy :: env where
  "env_healthy =
     \<lparr>s_dispatch = Some \<lparr>Load = True, WHvGetCapability = caps_healthy\<rparr>,
      g_whpxVersion = VersionInfo 10 0 17763 0,
      HostInfo = host\<rparr>"

text \<open>An older build of the same host, below the threshold of the constructor.\<close>

definition env_older :: env where
  "env_older =
     \<lparr>s_dispatch = Some \<lparr>Load = True, WHvGetCapability = caps_healthy\<rparr>,
      g_whpxVersion = VersionInfo 10 0 17134 0,
      HostInfo = host\<rparr>"

text \<open>No dispatch object; a dispatch object whose \<^verbatim>\<open>Load()\<close> fails.\<close>

definition env_null :: env where
  "env_null = \<lparr>s_dispatch = None, g_whpxVersion = VersionInfo 0 0 0 0, HostInfo = host\<rparr>"

definition env_not_loaded :: env where
  "env_not_loaded =
     \<lparr>s_dispatch = Some \<lparr>Load = False, WHvGetCapability = caps_healthy\<rparr>,
      g_whpxVersion = VersionInfo 0 0 0 0,
      HostInfo = host\<rparr>"

text \<open>The entry points resolve, and the hypervisor is reported absent.\<close>

fun caps_absent :: "WHV_CAPABILITY_CODE \<Rightarrow> WHV_CAPABILITY \<Rightarrow> HRESULT \<times> WHV_CAPABILITY" where
  "caps_absent WHvCapabilityCodeHypervisorPresent c = (S_OK, 0)"
| "caps_absent code c = caps_healthy code c"

definition env_absent :: env where
  "env_absent =
     \<lparr>s_dispatch = Some \<lparr>Load = True, WHvGetCapability = caps_absent\<rparr>,
      g_whpxVersion = VersionInfo 10 0 17763 0,
      HostInfo = host\<rparr>"

text \<open>
  The entry points resolve, and the presence query fails with \<^verbatim>\<open>E_FAIL\<close> and leaves
  the buffer as it was.
\<close>

fun caps_presence_fail ::
  "WHV_CAPABILITY_CODE \<Rightarrow> WHV_CAPABILITY \<Rightarrow> HRESULT \<times> WHV_CAPABILITY" where
  "caps_presence_fail WHvCapabilityCodeHypervisorPresent c = (E_FAIL, c)"
| "caps_presence_fail code c = caps_healthy code c"

definition env_presence_fail :: env where
  "env_presence_fail =
     \<lparr>s_dispatch = Some \<lparr>Load = True, WHvGetCapability = caps_presence_fail\<rparr>,
      g_whpxVersion = VersionInfo 10 0 17763 0,
      HostInfo = host\<rparr>"

text \<open>
  The features query fails with \<^verbatim>\<open>E_FAIL\<close> and leaves the buffer as it was; the other
  queries succeed.
\<close>

fun caps_features_fail ::
  "WHV_CAPABILITY_CODE \<Rightarrow> WHV_CAPABILITY \<Rightarrow> HRESULT \<times> WHV_CAPABILITY" where
  "caps_features_fail WHvCapabilityCodeFeatures c = (E_FAIL, c)"
| "caps_features_fail code c = caps_healthy code c"

definition env_features_fail :: env where
  "env_features_fail =
     \<lparr>s_dispatch = Some \<lparr>Load = True, WHvGetCapability = caps_features_fail\<rparr>,
      g_whpxVersion = VersionInfo 10 0 17763 0,
      HostInfo = host\<rparr>"

text \<open>The extended exits query fails with \<^verbatim>\<open>E_FAIL\<close> and clears the buffer.\<close>

fun caps_exits_fail ::
  "WHV_CAPABILITY_CODE \<Rightarrow> WHV_CAPABILITY \<Rightarrow> HRESULT \<times> WHV_CAPABILITY" where
  "caps_exits_fail WHvCapabilityCodeExtendedVmExits c = (E_FAIL, 0)"
| "caps_exits_fail code c = caps_healthy code c"

definition env_exits_fail :: env where
  "env_exits_fail =
     \<lparr>s_dispatch = Some \<lparr>Load = True, WHvGetCapability = caps_exits_fail\<rparr>,
      g_whpxVersion = VersionInfo 10 0 17763 0,
      HostInfo = host\<rparr>"

text \<open>
  Every query succeeds; the only extended exit the hypervisor reports is the exception
  exit (bit 2), and the exception bitmap has bit 3 alone (the breakpoint exception).
\<close>

fun caps_exception_only ::
  "WHV_CAPABILITY_CODE \<Rightarrow> WHV_CAPABILITY \<Rightarrow> HRESULT \<times> WHV_CAPABILITY" where
  "caps_exception_only WHvCapabilityCodeExtendedVmExits c = (S_OK, 0x4)"
| "caps_exception_only WHvCapabilityCodeExceptionExitBitmap c = (S_OK, 0x8)"
| "caps_exception_only code c = caps_healthy code c"

definition env_exception_only :: env where
  "env_exception_only =
     \<lparr>s_dispatch = Some \<lparr>Load = True, WHvGetCapability = caps_exception_only\<rparr>,
      g_whpxVersion = VersionInfo 10 0 17763 0,
      HostInfo = host\<rparr>"

text \<open>
  The properties the specification asks of the sequence of status writes of a run.
  \<^verbatim>\<open>terminal_once_set\<close>: after the first write the status keeps its value.
  \<^verbatim>\<open>degrades_only\<close>: nothing follows a write of \<^verbatim>\<open>Unavailable\<close>, and only
  \<^verbatim>\<open>Failed\<close> follows a write of \<^verbatim>\<open>OK\<close>.
\<close>

fun all_equal :: "PlatformInitStatus \<Rightarrow> PlatformInitStatus list \<Rightarrow> bool" where
  "all_equal s [] = True"
| "all_equal s (w # ws) = (w = s \<and> all_equal s ws)"

fun terminal_once_set :: "PlatformInitStatus list \<Rightarrow> bool" where
  "terminal_once_set [] = True"
| "terminal_once_set (s # ws) = all_equal s ws"

fun degrades_only :: "PlatformInitStatus list \<Rightarrow> bool" where
  "degrades_only [] = True"
| "degrades_only (Unavailable # ws) = (ws = [])"
| "degrades_only (OK # ws) = all_equal Failed ws"
| "degrades_only (s # ws) = degrades_only ws"

text \<open>A virtual machine for the factory: its specification and whether it is initialised.\<close>

record vm_example =
  vm_processors :: nat
  vm_initialized :: bool

definition make_vm_example :: "(64 word) Platform \<Rightarrow> WhpxDispatch \<Rightarrow> nat \<Rightarrow> vm_example" where
  "make_vm_example p d n = \<lparr>vm_processors = n, vm_initialized = False\<rparr>"

definition Initialize_example :: "vm_example \<Rightarrow> bool \<times> vm_example" where
  "Initialize_example vm =
     (if vm_processors vm \<le> 64 then (True, vm\<lparr>vm_initialized := True\<rparr>) else (False, vm))"

section \<open>Properties of the frame operations\<close>

lemma status_writes_append [simp]:
  "status_writes (xs @ ys) = status_writes xs @ status_writes ys"
  by (induction xs rule: status_writes.induct) simp_all

lemma capability_queries_append [simp]:
  "capability_queries (xs @ ys) = capability_queries xs @ capability_queries ys"
  by (induction xs rule: capability_queries.induct) simp_all

lemma set_initStatus_simps [simp]:
  "m_initStatus (this (set_initStatus s fr)) = s"
  "m_features (this (set_initStatus s fr)) = m_features (this fr)"
  "cap (set_initStatus s fr) = cap fr"
  "trace (set_initStatus s fr) = trace fr @ [Write_initStatus s]"
  by (simp_all add: set_initStatus_def)

lemma update_features_simps [simp]:
  "m_initStatus (this (update_features g fr)) = m_initStatus (this fr)"
  "m_features (this (update_features g fr)) = g (m_features (this fr))"
  "cap (update_features g fr) = cap fr"
  "trace (update_features g fr) = trace fr"
  by (simp_all add: update_features_def)

lemma add_extendedVMExit_simps [simp]:
  "m_initStatus (this (add_extendedVMExit x fr)) = m_initStatus (this fr)"
  "extendedVMExits (m_features (this (add_extendedVMExit x fr))) =
     insert x (extendedVMExits (m_features (this fr)))"
  "exceptionExits (m_features (this (add_extendedVMExit x fr))) =
     exceptionExits (m_features (this fr))"
  "cap (add_extendedVMExit x fr) = cap fr"
  "trace (add_extendedVMExit x fr) = trace fr"
  by (simp_all add: add_extendedVMExit_def)

lemma call_WHvGetCapability_simps [simp]:
  "fst (call_WHvGetCapability d c fr) = fst (WHvGetCapability d c (cap fr))"
  "this (snd (call_WHvGetCapability d c fr)) = this fr"
  "cap (snd (call_WHvGetCapability d c fr)) = snd (WHvGetCapability d c (cap fr))"
  "trace (snd (call_WHvGetCapability d c fr)) = trace fr @ [Call_WHvGetCapability c]"
  by (simp_all add: call_WHvGetCapability_def split_def Let_def)

lemma populate_features_exits [simp]:
  "exceptionExits (populate_features e w f) = exceptionExits f"
  "extendedVMExits (populate_features e w f) = extendedVMExits f"
  by (simp_all add: populate_features_def Let_def)

lemmas flag_defs = S_OK_def E_FAIL_def HypervisorPresent_def ExceptionExit_def
  X64CpuidExit_def X64MsrExit_def X64RdtscExit_def X64ApicSmiExit_def HypercallExit_def
  Features_def ExceptionExitBitmap_def PartialUnmap_def DirtyPageTracking_def

section \<open>The stages of the constructor\<close>

text \<open>The extended exits stage: its status writes, its queries and what it publishes.\<close>

lemma probe_extended_exits_status:
  "m_initStatus (this (probe_extended_exits d sc fr)) = OK \<or>
   m_initStatus (this (probe_extended_exits d sc fr)) = Failed" if "m_initStatus (this fr) = OK"
  using that by (simp add: probe_extended_exits_def Let_def split_def)

lemma probe_extended_exits_status_writes:
  "status_writes (trace (probe_extended_exits d sc fr)) =
     status_writes (trace fr) @
     (if S_OK \<noteq> fst (WHvGetCapability d WHvCapabilityCodeExtendedVmExits (cap fr))
      then [Failed] else []) @
     (if ExceptionExit (snd (WHvGetCapability d WHvCapabilityCodeExtendedVmExits (cap fr))) \<and>
         S_OK \<noteq> fst (WHvGetCapability d WHvCapabilityCodeExceptionExitBitmap
                      (snd (WHvGetCapability d WHvCapabilityCodeExtendedVmExits (cap fr))))
      then [Failed] else [])"
  by (simp add: probe_extended_exits_def Let_def split_def)

lemma probe_extended_exits_last_write:
  "m_initStatus (this (probe_extended_exits d sc fr)) =
     last (m_initStatus (this fr) #
     (if S_OK \<noteq> fst (WHvGetCapability d WHvCapabilityCodeExtendedVmExits (cap fr))
      then [Failed] else []) @
     (if ExceptionExit (snd (WHvGetCapability d WHvCapabilityCodeExtendedVmExits (cap fr))) \<and>
         S_OK \<noteq> fst (WHvGetCapability d WHvCapabilityCodeExceptionExitBitmap
                      (snd (WHvGetCapability d WHvCapabilityCodeExtendedVmExits (cap fr))))
      then [Failed] else []))"
  by (simp add: probe_extended_exits_def Let_def split_def)

lemma probe_extended_exits_failure:
  assumes "S_OK \<noteq> fst (WHvGetCapability d WHvCapabilityCodeExtendedVmExits (cap fr)) \<or>
     ExceptionExit (snd (WHvGetCapability d WHvCapabilityCodeExtendedVmExits (cap fr))) \<and>
     S_OK \<noteq> fst (WHvGetCapability d WHvCapabilityCodeExceptionExitBitmap
                  (snd (WHvGetCapability d WHvCapabilityCodeExtendedVmExits (cap fr))))"
  shows "m_initStatus (this (probe_extended_exits d sc fr)) = Failed"
  using assms by (auto simp add: probe_extended_exits_last_write)

lemma probe_extended_exits_queries:
  "capability_queries (trace (probe_extended_exits d sc fr)) =
     capability_queries (trace fr) @ WHvCapabilityCodeExtendedVmExits #
     (if ExceptionExit (snd (WHvGetCapability d WHvCapabilityCodeExtendedVmExits (cap fr)))
      then [WHvCapabilityCodeExceptionExitBitmap] else [])"
  by (simp add: probe_extended_exits_def Let_def split_def)

lemma probe_extended_exits_exceptionExits:
  "exceptionExits (m_features (this (probe_extended_exits d sc fr))) =
     (let c = snd (WHvGetCapability d WHvCapabilityCodeExtendedVmExits (cap fr))
      in if ExceptionExit c
         then sc (ExceptionExitBitmap (snd (WHvGetCapability d WHvCapabilityCodeExceptionExitBitmap c)))
         else exceptionExits (m_features (this fr)))"
  by (simp add: probe_extended_exits_def Let_def split_def)

lemma probe_extended_exits_consistent:
  "exceptionExits (m_features (this (probe_extended_exits d sc fr))) \<noteq>
     exceptionExits (m_features (this fr)) \<longrightarrow>
   Exception \<in> extendedVMExits (m_features (this (probe_extended_exits d sc fr)))"
  by (simp add: probe_extended_exits_def Let_def split_def)

lemma probe_extended_exits_first_flags:
  "let c = snd (WHvGetCapability d WHvCapabilityCodeExtendedVmExits (cap fr));
       exits = extendedVMExits (m_features (this (probe_extended_exits d sc fr)));
       exits0 = extendedVMExits (m_features (this fr))
   in (CPUID \<in> exits \<longleftrightarrow> CPUID \<in> exits0 \<or> X64CpuidExit c) \<and>
      (MSRAccess \<in> exits \<longleftrightarrow> MSRAccess \<in> exits0 \<or> X64MsrExit c) \<and>
      (Exception \<in> exits \<longleftrightarrow> Exception \<in> exits0 \<or> ExceptionExit c)"
  by (simp add: probe_extended_exits_def Let_def split_def)

lemma probe_extended_exits_later_flags:
  "let c = snd (WHvGetCapability d WHvCapabilityCodeExtendedVmExits (cap fr));
       c' = (if ExceptionExit c
             then snd (WHvGetCapability d WHvCapabilityCodeExceptionExitBitmap c) else c);
       exits = extendedVMExits (m_features (this (probe_extended_exits d sc fr)));
       exits0 = extendedVMExits (m_features (this fr))
   in (TSCAccess \<in> exits \<longleftrightarrow> TSCAccess \<in> exits0 \<or> X64RdtscExit c') \<and>
      (APICSMI \<in> exits \<longleftrightarrow> APICSMI \<in> exits0 \<or> X64ApicSmiExit c') \<and>
      (Hypercall \<in> exits \<longleftrightarrow> Hypercall \<in> exits0 \<or> HypercallExit c')"
  by (simp add: probe_extended_exits_def Let_def split_def)

lemma probe_extended_exits_keeps:
  "extendedControlRegisters (m_features (this (probe_extended_exits d sc fr))) =
     extendedControlRegisters (m_features (this fr))"
  "maxProcessorsPerVM (m_features (this (probe_extended_exits d sc fr))) =
     maxProcessorsPerVM (m_features (this fr))"
  "maxProcessorsGlobal (m_features (this (probe_extended_exits d sc fr))) =
     maxProcessorsGlobal (m_features (this fr))"
  "unrestrictedGuest (m_features (this (probe_extended_exits d sc fr))) =
     unrestrictedGuest (m_features (this fr))"
  "extendedPageTables (m_features (this (probe_extended_exits d sc fr))) =
     extendedPageTables (m_features (this fr))"
  "largeMemoryAllocation (m_features (this (probe_extended_exits d sc fr))) =
     largeMemoryAllocation (m_features (this fr))"
  "customCPUIDs (m_features (this (probe_extended_exits d sc fr))) =
     customCPUIDs (m_features (this fr))"
  "dirtyPageTracking (m_features (this (probe_extended_exits d sc fr))) =
     dirtyPageTracking (m_features (this fr))"
  "partialDirtyBitmap (m_features (this (probe_extended_exits d sc fr))) =
     partialDirtyBitmap (m_features (this fr))"
  "partialUnmapping (m_features (this (probe_extended_exits d sc fr))) =
     partialUnmapping (m_features (this fr))"
  "memoryAliasing (m_features (this (probe_extended_exits d sc fr))) =
     memoryAliasing (m_features (this fr))"
  "memoryUnmapping (m_features (this (probe_extended_exits d sc fr))) =
     memoryUnmapping (m_features (this fr))"
  by (simp_all add: probe_extended_exits_def Let_def split_def add_extendedVMExit_def)

text \<open>The features stage.\<close>

lemma probe_features_status:
  "m_initStatus (this (probe_features e d sc fr)) = OK \<or>
   m_initStatus (this (probe_features e d sc fr)) = Failed"
  by (simp add: probe_features_def Let_def split_def probe_extended_exits_status)

lemma probe_features_status_writes:
  "\<exists>ws. status_writes (trace (probe_features e d sc fr)) =
          status_writes (trace fr) @
          (if S_OK \<noteq> fst (WHvGetCapability d WHvCapabilityCodeFeatures (cap fr))
           then [Failed] else []) @ OK # ws \<and>
        all_equal Failed ws \<and>
        m_initStatus (this (probe_features e d sc fr)) = last (OK # ws)"
  by (simp add: probe_features_def Let_def split_def probe_extended_exits_status_writes
      probe_extended_exits_last_write)

text \<open>The constructor, by the place where it returns.\<close>

lemma ctor_cases:
  "WhpxPlatform_ctor e sc cap0 p0 =
    (case s_dispatch e of
       None \<Rightarrow> set_initStatus Failed \<lparr>this = p0, cap = cap0, trace = []\<rparr>
     | Some d \<Rightarrow>
        if \<not> Load d then set_initStatus Unavailable \<lparr>this = p0, cap = cap0, trace = [Call_Load]\<rparr>
        else if \<not> HypervisorPresent (snd (WHvGetCapability d WHvCapabilityCodeHypervisorPresent cap0))
        then set_initStatus Unavailable
          (let fr = snd (call_WHvGetCapability d WHvCapabilityCodeHypervisorPresent
                \<lparr>this = p0\<lparr>m_version := build_version (g_whpxVersion e)\<rparr>, cap = cap0, trace = [Call_Load]\<rparr>)
           in if S_OK \<noteq> fst (WHvGetCapability d WHvCapabilityCodeHypervisorPresent cap0)
              then set_initStatus Failed fr else fr)
        else probe_features e d sc
          (let fr = snd (call_WHvGetCapability d WHvCapabilityCodeHypervisorPresent
                \<lparr>this = p0\<lparr>m_version := build_version (g_whpxVersion e)\<rparr>, cap = cap0, trace = [Call_Load]\<rparr>)
           in if S_OK \<noteq> fst (WHvGetCapability d WHvCapabilityCodeHypervisorPresent cap0)
              then set_initStatus Failed fr else fr))"
  by (simp add: WhpxPlatform_ctor_def call_Load_def Let_def split_def split: option.splits)

lemmas run_defs = ctor_cases probe_features_def probe_extended_exits_def Let_def split_def

section \<open>The init status\<close>

text \<open>
  Claim C1: whenever one of the capability queries of a constructor run returns a result
  other than \<^verbatim>\<open>S_OK\<close>, probing goes on through the remaining queries and the run
  ends with the status \<^verbatim>\<open>Failed\<close>. The constructor does write \<^verbatim>\<open>Failed\<close> after
  each failing query, but line 103 assigns \<^verbatim>\<open>OK\<close> unconditionally after the features
  have been populated. On a host whose features query fails with \<^verbatim>\<open>E_FAIL\<close> while
  the other queries succeed, all four queries are made, the status is written
  \<^verbatim>\<open>Failed\<close> and then \<^verbatim>\<open>OK\<close>, and the run ends with \<^verbatim>\<open>OK\<close>.
\<close>

theorem features_query_failure_ends_OK:
  "fst (caps_features_fail WHvCapabilityCodeFeatures 1) \<noteq> S_OK \<and>
   capability_queries (trace (WhpxPlatform_ctor env_features_fail id 0 p_init)) =
     [WHvCapabilityCodeHypervisorPresent, WHvCapabilityCodeFeatures,
      WHvCapabilityCodeExtendedVmExits, WHvCapabilityCodeExceptionExitBitmap] \<and>
   status_writes (trace (WhpxPlatform_ctor env_features_fail id 0 p_init)) = [Failed, OK] \<and>
   m_initStatus (this (WhpxPlatform_ctor env_features_fail id 0 p_init)) = OK"
  by (simp add: run_defs env_features_fail_def flag_defs)

text \<open>
  Claim C2 says that the status keeps the first value it is set to. On a host whose
  extended exits query fails the status is set to \<^verbatim>\<open>OK\<close> on line 103 and to
  \<^verbatim>\<open>Failed\<close> on line 108: the sequence of writes is not constant.
\<close>

theorem ctor_status_counterexample:
  "status_writes (trace (WhpxPlatform_ctor env_exits_fail id 0 p_init)) = [OK, Failed] \<and>
   \<not> terminal_once_set (status_writes (trace (WhpxPlatform_ctor env_exits_fail id 0 p_init)))"
  by (simp add: run_defs env_exits_fail_def flag_defs)

text \<open>
  Claim C2, as the constructor has it: the status is never set to
  \<^verbatim>\<open>Uninitialized\<close>; every run sets the status, and the value at the end is the last
  one written; nothing is written after \<^verbatim>\<open>Unavailable\<close>, and after \<^verbatim>\<open>OK\<close> the
  status can only change to \<^verbatim>\<open>Failed\<close>.
\<close>

theorem ctor_status_writes:
  "Uninitialized \<notin> set (status_writes (trace (WhpxPlatform_ctor e sc cap0 p0))) \<and>
   status_writes (trace (WhpxPlatform_ctor e sc cap0 p0)) \<noteq> [] \<and>
   m_initStatus (this (WhpxPlatform_ctor e sc cap0 p0)) =
     last (status_writes (trace (WhpxPlatform_ctor e sc cap0 p0))) \<and>
   degrades_only (status_writes (trace (WhpxPlatform_ctor e sc cap0 p0)))"
proof -
  define fr where "fr = WhpxPlatform_ctor e sc cap0 p0"
  have "Uninitialized \<notin> set (status_writes (trace fr)) \<and>
        status_writes (trace fr) \<noteq> [] \<and>
        m_initStatus (this fr) = last (status_writes (trace fr)) \<and>
        degrades_only (status_writes (trace fr))"
  proof (cases "s_dispatch e")
    case None
    then show ?thesis by (simp add: fr_def ctor_cases)
  next
    case (Some d)
    show ?thesis
    proof (cases "Load d \<and>
        HypervisorPresent (snd (WHvGetCapability d WHvCapabilityCodeHypervisorPresent cap0))")
      case False
      with Some show ?thesis by (auto simp add: fr_def ctor_cases Let_def)
    next
      case True
      define fr1 :: "'a frame" where "fr1 =
        (let fr = snd (call_WHvGetCapability d WHvCapabilityCodeHypervisorPresent
                  \<lparr>this = p0\<lparr>m_version := build_version (g_whpxVersion e)\<rparr>,
                   cap = cap0, trace = [Call_Load]\<rparr>)
         in if S_OK \<noteq> fst (WHvGetCapability d WHvCapabilityCodeHypervisorPresent cap0)
            then set_initStatus Failed fr else fr)"
      have fr: "fr = probe_features e d sc fr1"
        using Some True by (simp add: fr_def ctor_cases fr1_def)
      have pre: "status_writes (trace fr1) = [] \<or> status_writes (trace fr1) = [Failed]"
        by (simp add: fr1_def Let_def)
      obtain ws where ws: "status_writes (trace fr) =
            status_writes (trace fr1) @
            (if S_OK \<noteq> fst (WHvGetCapability d WHvCapabilityCodeFeatures (cap fr1))
             then [Failed] else []) @ OK # ws"
         "all_equal Failed ws" "m_initStatus (this fr) = last (OK # ws)"
        unfolding fr using probe_features_status_writes [of e d sc fr1] by blast
      have nu: "Uninitialized \<notin> set ws" using ws(2) by (induction ws) auto
      from pre ws nu show ?thesis by auto
    qed
  qed
  then show ?thesis by (simp add: fr_def)
qed

theorem ctor_status_writes_witness:
  "status_writes (trace (WhpxPlatform_ctor env_exits_fail id 0 p_init)) = [OK, Failed] \<and>
   degrades_only (status_writes (trace (WhpxPlatform_ctor env_exits_fail id 0 p_init))) \<and>
   m_initStatus (this (WhpxPlatform_ctor env_exits_fail id 0 p_init)) = Failed"
proof -
  have ws: "status_writes (trace (WhpxPlatform_ctor env_exits_fail id 0 p_init)) = [OK, Failed]"
    by (simp add: run_defs env_exits_fail_def flag_defs)
  from ws ctor_status_writes [of env_exits_fail id 0 p_init] show ?thesis by simp
qed

text \<open>
  What the constructor does: a run ends with the status \<^verbatim>\<open>Unavailable\<close> exactly
  when the dispatch object exists and either its \<^verbatim>\<open>Load()\<close> fails or
  \<^verbatim>\<open>cap.HypervisorPresent\<close> reads as false after the presence query, whatever that
  query returned; the write of \<^verbatim>\<open>Unavailable\<close> is then the last action of the run.
\<close>

lemma ctor_Unavailable_buffer:
  "(m_initStatus (this (WhpxPlatform_ctor e sc cap0 p0)) = Unavailable \<longleftrightarrow>
    (\<exists>d. s_dispatch e = Some d \<and>
       (\<not> Load d \<or>
        \<not> HypervisorPresent
            (snd (WHvGetCapability d WHvCapabilityCodeHypervisorPresent cap0))))) \<and>
   (m_initStatus (this (WhpxPlatform_ctor e sc cap0 p0)) = Unavailable \<longrightarrow>
    last (trace (WhpxPlatform_ctor e sc cap0 p0)) = Write_initStatus Unavailable)"
proof (cases "s_dispatch e")
  case None
  then show ?thesis by (simp add: ctor_cases)
next
  case (Some d)
  have "m_initStatus (this (probe_features e d sc fr)) \<noteq> Unavailable" for fr :: "'a frame"
    using probe_features_status [of e d sc fr] by auto
  with Some show ?thesis by (simp add: ctor_cases)
qed

text \<open>
  Claim C3: a constructor run ends with the status \<^verbatim>\<open>Unavailable\<close> exactly when the
  environment lacks the backend, that is when \<^verbatim>\<open>Load()\<close> fails or the presence
  capability reports the hypervisor absent. After a failing presence query line 70 writes
  \<^verbatim>\<open>Failed\<close>, but line 72 goes on to test \<^verbatim>\<open>cap.HypervisorPresent\<close>, which the
  failed call need not have written, and line 73 overwrites the status. On a host where
  \<^verbatim>\<open>Load()\<close> succeeds and the presence query fails with \<^verbatim>\<open>E_FAIL\<close> over a buffer
  that holds zero, the status is written \<^verbatim>\<open>Failed\<close> and then \<^verbatim>\<open>Unavailable\<close>, and
  the run ends with \<^verbatim>\<open>Unavailable\<close> although no capability reported the hypervisor
  absent.
\<close>

theorem failed_presence_query_ends_Unavailable:
  "map_option Load (s_dispatch env_presence_fail) = Some True \<and>
   fst (caps_presence_fail WHvCapabilityCodeHypervisorPresent 0) \<noteq> S_OK \<and>
   capability_queries (trace (WhpxPlatform_ctor env_presence_fail id 0 p_init)) =
     [WHvCapabilityCodeHypervisorPresent] \<and>
   status_writes (trace (WhpxPlatform_ctor env_presence_fail id 0 p_init)) =
     [Failed, Unavailable] \<and>
   m_initStatus (this (WhpxPlatform_ctor env_presence_fail id 0 p_init)) = Unavailable"
  by (simp add: run_defs env_presence_fail_def flag_defs)

text \<open>
  Claim C4 says that a run whose dispatch table is not loaded ends with the status
  \<^verbatim>\<open>Failed\<close>. When the dispatch object exists and \<^verbatim>\<open>Load()\<close> returns false,
  line 55 sets \<^verbatim>\<open>Unavailable\<close>.
\<close>

theorem ctor_not_loaded_counterexample:
  "map_option Load (s_dispatch env_not_loaded) = Some False \<and>
   m_initStatus (this (WhpxPlatform_ctor env_not_loaded id 0 p_init)) \<noteq> Failed"
  by (simp add: run_defs env_not_loaded_def)

text \<open>
  Claim C4, as the constructor has it: when the dispatch object is null the status is
  \<^verbatim>\<open>Failed\<close>, when \<^verbatim>\<open>Load()\<close> returns false the status is \<^verbatim>\<open>Unavailable\<close>,
  and in both cases no capability is queried.
\<close>

theorem ctor_not_loaded:
  "(s_dispatch e = None \<longrightarrow>
      m_initStatus (this (WhpxPlatform_ctor e sc cap0 p0)) = Failed \<and>
      capability_queries (trace (WhpxPlatform_ctor e sc cap0 p0)) = []) \<and>
   (\<forall>d. s_dispatch e = Some d \<and> \<not> Load d \<longrightarrow>
      m_initStatus (this (WhpxPlatform_ctor e sc cap0 p0)) = Unavailable \<and>
      capability_queries (trace (WhpxPlatform_ctor e sc cap0 p0)) = [])"
  by (simp add: ctor_cases)

theorem ctor_not_loaded_witness:
  "s_dispatch env_null = None \<and>
   m_initStatus (this (WhpxPlatform_ctor env_null id 0 p_init)) = Failed \<and>
   capability_queries (trace (WhpxPlatform_ctor env_null id 0 p_init)) = [] \<and>
   s_dispatch env_not_loaded = Some \<lparr>Load = False, WHvGetCapability = caps_healthy\<rparr> \<and>
   \<not> Load \<lparr>Load = False, WHvGetCapability = caps_healthy\<rparr> \<and>
   m_initStatus (this (WhpxPlatform_ctor env_not_loaded id 0 p_init)) = Unavailable \<and>
   capability_queries (trace (WhpxPlatform_ctor env_not_loaded id 0 p_init)) = []"
proof -
  have n: "s_dispatch env_null = None" by (simp add: env_null_def)
  have l: "s_dispatch env_not_loaded = Some \<lparr>Load = False, WHvGetCapability = caps_healthy\<rparr> \<and>
    \<not> Load \<lparr>Load = False, WHvGetCapability = caps_healthy\<rparr>"
    by (simp add: env_not_loaded_def)
  from n l ctor_not_loaded [of env_null id 0 p_init] ctor_not_loaded [of env_not_loaded id 0 p_init]
  show ?thesis by blast
qed

section \<open>The published features\<close>

text \<open>
  Claim C5: the published features are consistent. When the base class leaves
  \<^verbatim>\<open>exceptionExits\<close> empty (the value \<^verbatim>\<open>none\<close>), the set is non-empty after the
  constructor only if \<^verbatim>\<open>extendedVMExits\<close> includes \<^verbatim>\<open>Exception\<close>. This holds for
  every run, and so for those that complete probing.
\<close>

theorem exceptionExits_only_with_Exception:
  assumes "exceptionExits (m_features p0) = none"
  shows "exceptionExits (m_features (this (WhpxPlatform_ctor e sc cap0 p0))) \<noteq> none \<longrightarrow>
         Exception \<in> extendedVMExits (m_features (this (WhpxPlatform_ctor e sc cap0 p0)))"
proof (cases "s_dispatch e")
  case None
  with assms show ?thesis by (simp add: ctor_cases set_initStatus_def)
next
  case (Some d)
  show ?thesis
  proof (cases "Load d \<and>
      HypervisorPresent (snd (WHvGetCapability d WHvCapabilityCodeHypervisorPresent cap0))")
    case False
    with Some assms show ?thesis
      by (auto simp add: ctor_cases Let_def set_initStatus_def call_WHvGetCapability_def split_def)
  next
    case True
    with Some assms show ?thesis
      using probe_extended_exits_consistent [of d sc]
      by (simp add: ctor_cases probe_features_def Let_def split_def)
  qed
qed

theorem exceptionExits_only_with_Exception_witness:
  "exceptionExits (m_features p_init) = 0 \<and>
   exceptionExits (m_features (this (WhpxPlatform_ctor env_healthy id 0 p_init))) \<noteq> 0 \<and>
   Exception \<in> extendedVMExits (m_features (this (WhpxPlatform_ctor env_healthy id 0 p_init)))"
proof -
  have h: "exceptionExits (m_features p_init) = 0" by (simp add: p_init_def)
  have nz: "exceptionExits (m_features (this (WhpxPlatform_ctor env_healthy id 0 p_init))) \<noteq> 0"
    by (simp add: run_defs env_healthy_def flag_defs)
  from h nz exceptionExits_only_with_Exception [OF h, of env_healthy id 0] show ?thesis by blast
qed

text \<open>
  Claim C6: each of the six flags of the native extended exits capability adds exactly
  its member to \<^verbatim>\<open>extendedVMExits\<close>. The exception bitmap is queried into the same
  \<^verbatim>\<open>cap\<close> on line 119, before lines 125 to 133 read the last three flags, so those are
  read from the exception bitmap whenever the exception exit is supported. On a host that
  reports the exception exit alone (the capability is 4) and an exception bitmap of 8,
  \<^verbatim>\<open>TSCAccess\<close> is published although the native \<^verbatim>\<open>X64RdtscExit\<close> flag is clear.
\<close>

theorem exception_bitmap_read_as_exits:
  "snd (caps_exception_only WHvCapabilityCodeExtendedVmExits 9) = 4 \<and>
   \<not> X64RdtscExit 4 \<and>
   extendedVMExits (m_features (this (WhpxPlatform_ctor env_exception_only id 0 p_init))) =
     {Exception, TSCAccess}"
  by (auto simp add: run_defs env_exception_only_def flag_defs p_init_def)

text \<open>
  Claim C7: when the constructor reaches the population of the features (the dispatch
  table is loaded and the hypervisor is present), \<^verbatim>\<open>extendedControlRegisters\<close>
  includes \<^verbatim>\<open>XCR0\<close> if and only if the version is at least 10.0.17763.0, and it
  includes \<^verbatim>\<open>CR8\<close> and \<^verbatim>\<open>MXCSRMask\<close> whatever the version.
\<close>

theorem XCR0_version_gated:
  assumes "s_dispatch e = Some d" and "Load d"
    and "HypervisorPresent (snd (WHvGetCapability d WHvCapabilityCodeHypervisorPresent cap0))"
  shows "(XCR0 \<in> extendedControlRegisters (m_features (this (WhpxPlatform_ctor e sc cap0 p0)))
            \<longleftrightarrow> VersionInfo_ge (g_whpxVersion e) (VersionInfo 10 0 17763 0)) \<and>
         CR8 \<in> extendedControlRegisters (m_features (this (WhpxPlatform_ctor e sc cap0 p0))) \<and>
         MXCSRMask \<in> extendedControlRegisters (m_features (this (WhpxPlatform_ctor e sc cap0 p0)))"
  using assms
  by (simp add: ctor_cases probe_features_def Let_def split_def probe_extended_exits_keeps
      populate_features_def)

theorem XCR0_version_gated_witness:
  "XCR0 \<in> extendedControlRegisters (m_features (this (WhpxPlatform_ctor env_healthy id 0 p_init))) \<and>
   XCR0 \<notin> extendedControlRegisters (m_features (this (WhpxPlatform_ctor env_older id 0 p_init))) \<and>
   CR8 \<in> extendedControlRegisters (m_features (this (WhpxPlatform_ctor env_older id 0 p_init))) \<and>
   MXCSRMask \<in> extendedControlRegisters (m_features (this (WhpxPlatform_ctor env_older id 0 p_init)))"
proof -
  let ?d = "\<lparr>Load = True, WHvGetCapability = caps_healthy\<rparr>"
  have h: "s_dispatch env_healthy = Some ?d" by (simp add: env_healthy_def)
  have o: "s_dispatch env_older = Some ?d" by (simp add: env_older_def)
  have l: "Load ?d" by simp
  have p: "HypervisorPresent (snd (WHvGetCapability ?d WHvCapabilityCodeHypervisorPresent 0))"
    by (simp add: HypervisorPresent_def)
  have ge: "VersionInfo_ge (g_whpxVersion env_healthy) (VersionInfo 10 0 17763 0)"
    by (simp add: env_healthy_def VersionInfo_ge_def)
  have lt: "\<not> VersionInfo_ge (g_whpxVersion env_older) (VersionInfo 10 0 17763 0)"
    by (simp add: env_older_def VersionInfo_ge_def)
  from ge lt XCR0_version_gated [OF h l p, of id p_init] XCR0_version_gated [OF o l p, of id p_init]
  show ?thesis by blast
qed

text \<open>
  Claim C10: when the constructor reaches the population of the features, the flags
  \<^verbatim>\<open>unrestrictedGuest\<close>, \<^verbatim>\<open>extendedPageTables\<close>, \<^verbatim>\<open>largeMemoryAllocation\<close>,
  \<^verbatim>\<open>customCPUIDs\<close>, \<^verbatim>\<open>partialDirtyBitmap\<close>, \<^verbatim>\<open>memoryAliasing\<close> and
  \<^verbatim>\<open>memoryUnmapping\<close> are true, \<^verbatim>\<open>maxProcessorsPerVM\<close> is 64 and
  \<^verbatim>\<open>maxProcessorsGlobal\<close> is 128, whatever the queries return; \<^verbatim>\<open>dirtyPageTracking\<close>
  and \<^verbatim>\<open>partialUnmapping\<close> are the bits \<^verbatim>\<open>DirtyPageTracking\<close> and
  \<^verbatim>\<open>PartialUnmap\<close> of the features structure the second query left in \<^verbatim>\<open>cap\<close>.
\<close>

theorem features_constants:
  assumes "s_dispatch e = Some d" and "Load d"
    and "HypervisorPresent (snd (WHvGetCapability d WHvCapabilityCodeHypervisorPresent cap0))"
  shows "unrestrictedGuest (m_features (this (WhpxPlatform_ctor e sc cap0 p0))) \<and>
         extendedPageTables (m_features (this (WhpxPlatform_ctor e sc cap0 p0))) \<and>
         largeMemoryAllocation (m_features (this (WhpxPlatform_ctor e sc cap0 p0))) \<and>
         customCPUIDs (m_features (this (WhpxPlatform_ctor e sc cap0 p0))) \<and>
         partialDirtyBitmap (m_features (this (WhpxPlatform_ctor e sc cap0 p0))) \<and>
         memoryAliasing (m_features (this (WhpxPlatform_ctor e sc cap0 p0))) \<and>
         memoryUnmapping (m_features (this (WhpxPlatform_ctor e sc cap0 p0))) \<and>
         maxProcessorsPerVM (m_features (this (WhpxPlatform_ctor e sc cap0 p0))) = 64 \<and>
         maxProcessorsGlobal (m_features (this (WhpxPlatform_ctor e sc cap0 p0))) = 128 \<and>
         dirtyPageTracking (m_features (this (WhpxPlatform_ctor e sc cap0 p0))) =
           DirtyPageTracking (Features (snd (WHvGetCapability d WHvCapabilityCodeFeatures
             (snd (WHvGetCapability d WHvCapabilityCodeHypervisorPresent cap0))))) \<and>
         partialUnmapping (m_features (this (WhpxPlatform_ctor e sc cap0 p0))) =
           PartialUnmap (Features (snd (WHvGetCapability d WHvCapabilityCodeFeatures
             (snd (WHvGetCapability d WHvCapabilityCodeHypervisorPresent cap0)))))"
  using assms
  by (simp add: ctor_cases probe_features_def Let_def split_def probe_extended_exits_keeps
      populate_features_def)

theorem features_constants_witness:
  "unrestrictedGuest (m_features (this (WhpxPlatform_ctor env_healthy id 0 p_init))) \<and>
   maxProcessorsPerVM (m_features (this (WhpxPlatform_ctor env_healthy id 0 p_init))) = 64 \<and>
   maxProcessorsGlobal (m_features (this (WhpxPlatform_ctor env_healthy id 0 p_init))) = 128 \<and>
   dirtyPageTracking (m_features (this (WhpxPlatform_ctor env_healthy id 0 p_init))) \<and>
   partialUnmapping (m_features (this (WhpxPlatform_ctor env_healthy id 0 p_init)))"
proof -
  let ?d = "\<lparr>Load = True, WHvGetCapability = caps_healthy\<rparr>"
  have h: "s_dispatch env_healthy = Some ?d" by (simp add: env_healthy_def)
  have l: "Load ?d" by simp
  have p: "HypervisorPresent (snd (WHvGetCapability ?d WHvCapabilityCodeHypervisorPresent 0))"
    by (simp add: HypervisorPresent_def)
  have f: "DirtyPageTracking (Features (snd (WHvGetCapability ?d WHvCapabilityCodeFeatures
             (snd (WHvGetCapability ?d WHvCapabilityCodeHypervisorPresent 0))))) \<and>
           PartialUnmap (Features (snd (WHvGetCapability ?d WHvCapabilityCodeFeatures
             (snd (WHvGetCapability ?d WHvCapabilityCodeHypervisorPresent 0)))))"
    by (simp add: DirtyPageTracking_def PartialUnmap_def Features_def)
  from f features_constants [OF h l p, of id p_init] show ?thesis by blast
qed

section \<open>Teardown and the VM factory\<close>

text \<open>
  Claim C8 says that the dispatch table is released on every destructor run. After the
  constructor run that found \<^verbatim>\<open>s_dispatch\<close> null and ended on line 51, there is no
  dispatch table: \<^verbatim>\<open>delete s_dispatch\<close> has no effect and the destructor performs no
  action at all.
\<close>

theorem dtor_null_dispatch_counterexample:
  "s_dispatch env_null = None \<and>
   m_initStatus (this (WhpxPlatform_ctor env_null id 0 p_init)) = Failed \<and>
   WhpxPlatform_dtor env_null (this (WhpxPlatform_ctor env_null id 0 p_init)) = []"
  by (simp add: ctor_cases env_null_def WhpxPlatform_dtor_def)

text \<open>
  Claim C8, as the destructor has it: \<^verbatim>\<open>DestroyVMs\<close> is called if and only if the
  status is \<^verbatim>\<open>OK\<close>, and a call of it is strictly before the release of the dispatch
  table; the dispatch table is released if and only if \<^verbatim>\<open>s_dispatch\<close> is not null,
  and then once and as the last action, whatever the status.
\<close>

theorem dtor_order:
  "(Call_DestroyVMs \<in> set (WhpxPlatform_dtor e p) \<longleftrightarrow> m_initStatus p = OK) \<and>
   (Delete_s_dispatch \<in> set (WhpxPlatform_dtor e p) \<longleftrightarrow> s_dispatch e \<noteq> None) \<and>
   (s_dispatch e \<noteq> None \<longrightarrow>
      last (WhpxPlatform_dtor e p) = Delete_s_dispatch \<and>
      count_list (WhpxPlatform_dtor e p) Delete_s_dispatch = 1) \<and>
   (\<forall>i j. i < length (WhpxPlatform_dtor e p) \<and> j < length (WhpxPlatform_dtor e p) \<and>
      WhpxPlatform_dtor e p ! i = Call_DestroyVMs \<and>
      WhpxPlatform_dtor e p ! j = Delete_s_dispatch
      \<longrightarrow> i < j)"
  by (cases "s_dispatch e")
    (auto simp add: WhpxPlatform_dtor_def Let_def nth_Cons split: nat.splits)

theorem dtor_order_witness:
  "Call_DestroyVMs \<in> set (WhpxPlatform_dtor env_healthy (p_init\<lparr>m_initStatus := OK\<rparr>)) \<and>
   Call_DestroyVMs \<notin> set (WhpxPlatform_dtor env_healthy (p_init\<lparr>m_initStatus := Failed\<rparr>)) \<and>
   WhpxPlatform_dtor env_healthy (p_init\<lparr>m_initStatus := OK\<rparr>) ! 0 = Call_DestroyVMs \<and>
   WhpxPlatform_dtor env_healthy (p_init\<lparr>m_initStatus := OK\<rparr>) ! 1 = Delete_s_dispatch \<and>
   last (WhpxPlatform_dtor env_healthy (p_init\<lparr>m_initStatus := OK\<rparr>)) = Delete_s_dispatch \<and>
   last (WhpxPlatform_dtor env_healthy (p_init\<lparr>m_initStatus := Failed\<rparr>)) = Delete_s_dispatch \<and>
   Delete_s_dispatch \<notin> set (WhpxPlatform_dtor env_null (p_init\<lparr>m_initStatus := Failed\<rparr>))"
proof -
  have ok: "m_initStatus (p_init\<lparr>m_initStatus := OK\<rparr>) = OK" by simp
  have failed: "m_initStatus (p_init\<lparr>m_initStatus := Failed\<rparr>) \<noteq> OK" by simp
  have d: "s_dispatch env_healthy \<noteq> None" by (simp add: env_healthy_def)
  have n: "s_dispatch env_null = None" by (simp add: env_null_def)
  have order: "WhpxPlatform_dtor env_healthy (p_init\<lparr>m_initStatus := OK\<rparr>) ! 0 = Call_DestroyVMs \<and>
    WhpxPlatform_dtor env_healthy (p_init\<lparr>m_initStatus := OK\<rparr>) ! 1 = Delete_s_dispatch"
    by (simp add: WhpxPlatform_dtor_def env_healthy_def)
  from ok failed d n order
    dtor_order [of env_healthy "p_init\<lparr>m_initStatus := OK\<rparr>"]
    dtor_order [of env_healthy "p_init\<lparr>m_initStatus := Failed\<rparr>"]
    dtor_order [of env_null "p_init\<lparr>m_initStatus := Failed\<rparr>"]
  show ?thesis by blast
qed

text \<open>
  Claim C9: for every specification, \<^verbatim>\<open>CreateVMImpl\<close> returns the null result when
  \<^verbatim>\<open>Initialize()\<close> of the new virtual machine returns false, and that virtual
  machine, as \<^verbatim>\<open>Initialize()\<close> left it, when it returns true.
\<close>

theorem CreateVMImpl_result:
  "(\<not> fst (Initialize (make_vm p d s)) \<longrightarrow> CreateVMImpl make_vm Initialize p d s = None) \<and>
   (fst (Initialize (make_vm p d s)) \<longrightarrow>
      CreateVMImpl make_vm Initialize p d s = Some (snd (Initialize (make_vm p d s))))"
  by (simp add: CreateVMImpl_def Let_def split_def)

theorem CreateVMImpl_result_witness:
  "\<not> fst (Initialize_example
     (make_vm_example p_init \<lparr>Load = True, WHvGetCapability = caps_healthy\<rparr> 65)) \<and>
   CreateVMImpl make_vm_example Initialize_example p_init
     \<lparr>Load = True, WHvGetCapability = caps_healthy\<rparr> 65 = None \<and>
   fst (Initialize_example
     (make_vm_example p_init \<lparr>Load = True, WHvGetCapability = caps_healthy\<rparr> 2)) \<and>
   CreateVMImpl make_vm_example Initialize_example p_init
     \<lparr>Load = True, WHvGetCapability = caps_healthy\<rparr> 2 =
     Some \<lparr>vm_processors = 2, vm_initialized = True\<rparr>"
proof -
  let ?d = "\<lparr>Load = True, WHvGetCapability = caps_healthy\<rparr>"
  have no: "\<not> fst (Initialize_example (make_vm_example p_init ?d 65))"
    by (simp add: Initialize_example_def make_vm_example_def)
  have yes: "fst (Initialize_example (make_vm_example p_init ?d 2))"
    by (simp add: Initialize_example_def make_vm_example_def)
  have vm: "snd (Initialize_example (make_vm_example p_init ?d 2)) =
    \<lparr>vm_processors = 2, vm_initialized = True\<rparr>"
    by (simp add: Initialize_example_def make_vm_example_def)
  from no yes vm
    CreateVMImpl_result [of Initialize_example make_vm_example p_init ?d 65]
    CreateVMImpl_result [of Initialize_example make_vm_example p_init ?d 2]
  show ?thesis by simp
qed

end
